theory Spec2Isabelle
  imports Complex_Main "HOL-Library.Word" "HOL-Library.Sublist" "HOL-Library.Multiset"
begin

section \<open>JavaScript strings\<close>

text \<open>
  A JavaScript string is a sequence of UTF-16 code units. \<^verbatim>\<open>split\<close>, \<^verbatim>\<open>trim\<close>,
  \<^verbatim>\<open>===\<close> and a regular expression without the \<^verbatim>\<open>u\<close> flag all work on code
  units; only \<^verbatim>\<open>for (const ch of stars)\<close> walks code points (see \<open>codePoints\<close>).
\<close>

type_synonym jschar = "16 word"
type_synonym jsstring = "jschar list"

text \<open>An ASCII literal of the source, as code units.\<close>

definition js :: "string \<Rightarrow> jsstring" where
  "js cs = map (\<lambda>c. of_nat (of_char c)) cs"

definition STAR :: jschar where
  \<comment> \<open>U+2605 BLACK STAR, the literal in \<^verbatim>\<open>starsToNumber\<close>\<close>
  "STAR = 0x2605"

definition HALF :: jschar where
  \<comment> \<open>U+00BD VULGAR FRACTION ONE HALF\<close>
  "HALF = 0xBD"

definition SPACE :: jschar where
  "SPACE = 0x20"

definition DASH :: jschar where
  "DASH = 0x2D"

definition COMMA :: jschar where
  "COMMA = 0x2C"

definition SEP :: jsstring where
  \<comment> \<open>the separator \<^verbatim>\<open>" - "\<close> of \<^verbatim>\<open>parseRssTitle\<close>\<close>
  "SEP = [SPACE, DASH, SPACE]"

definition isLineTerminator :: "jschar \<Rightarrow> bool" where
  \<comment> \<open>ECMAScript LineTerminator: LF, CR, LS, PS; the characters \<^verbatim>\<open>.\<close> does not match\<close>
  "isLineTerminator c = (c = 0x0A \<or> c = 0x0D \<or> c = 0x2028 \<or> c = 0x2029)"

definition isWhiteSpace :: "jschar \<Rightarrow> bool" where
  \<comment> \<open>what \<^verbatim>\<open>trim\<close> strips and \<^verbatim>\<open>\s\<close> matches: WhiteSpace (TAB, VT, FF, ZWNBSP and the
      Unicode space separators) and LineTerminator\<close>
  "isWhiteSpace c =
     (c = 0x09 \<or> c = 0x0B \<or> c = 0x0C \<or> c = 0x20 \<or> c = 0xA0 \<or> c = 0x1680
      \<or> (0x2000 \<le> c \<and> c \<le> 0x200A) \<or> c = 0x202F \<or> c = 0x205F \<or> c = 0x3000
      \<or> c = 0xFEFF \<or> isLineTerminator c)"

definition isDigit :: "jschar \<Rightarrow> bool" where
  \<comment> \<open>\<^verbatim>\<open>\d\<close> without the \<^verbatim>\<open>u\<close> flag: the ASCII digits\<close>
  "isDigit c = (0x30 \<le> c \<and> c \<le> 0x39)"

definition trim :: "jsstring \<Rightarrow> jsstring" where
  \<comment> \<open>\<^verbatim>\<open>String.prototype.trim\<close>\<close>
  "trim s = rev (dropWhile isWhiteSpace (rev (dropWhile isWhiteSpace s)))"

text \<open>
  \<^verbatim>\<open>s.indexOf(sep)\<close>: the position of the first occurrence of \<open>sep\<close> in \<open>s\<close>,
  \<open>None\<close> for the source's \<open>-1\<close>.
\<close>

fun indexOf :: "jsstring \<Rightarrow> jsstring \<Rightarrow> nat option" where
  "indexOf sep [] = (if sep = [] then Some 0 else None)"
| "indexOf sep (c # cs) =
     (if prefix sep (c # cs) then Some 0 else map_option Suc (indexOf sep cs))"

lemma indexOf_bound: "indexOf sep s = Some i \<Longrightarrow> i + length sep \<le> length s"
proof (induction s arbitrary: i)
  case Nil
  then show ?case by (simp split: if_splits)
next
  case (Cons c cs)
  then show ?case
    by (auto split: if_splits dest: prefix_length_le)
qed

text \<open>
  \<^verbatim>\<open>s.split(sep)\<close> with a string separator and no limit: the pieces between the
  occurrences of \<open>sep\<close>, found from left to right, each search starting after the
  previous occurrence. An empty separator splits into single code units.
\<close>

function split :: "jsstring \<Rightarrow> jsstring \<Rightarrow> jsstring list" where
  "split sep s =
     (if sep = [] then map (\<lambda>c. [c]) s
      else case indexOf sep s of
             None \<Rightarrow> [s]
           | Some i \<Rightarrow> take i s # split sep (drop (i + length sep) s))"
  by pat_completeness auto
termination
proof (relation "measure (\<lambda>(sep, s). length s)")
  show "wf (measure (\<lambda>(sep, s). length s))" by simp
next
  fix sep s :: jsstring and i
  assume "sep \<noteq> []" and "indexOf sep s = Some i"
  then have "i + length sep \<le> length s" and "0 < length sep"
    using indexOf_bound by auto
  then have "length s - (i + length sep) < length s"
    by arith
  then show "((sep, drop (i + length sep) s), (sep, s)) \<in> measure (\<lambda>(sep, s). length s)"
    by simp
qed

declare split.simps [simp del]

section \<open>The item normalizer\<close>

text \<open>
  The regular expression \<^verbatim>\<open>/^(.*),\s(\d{4})$/\<close> of \<^verbatim>\<open>parseRssTitle\<close>, which has no
  flag. It is anchored at both ends and everything after the group \<^verbatim>\<open>(.*)\<close> has the
  fixed length 6, so there is one way to match: the last six code units are a comma, one
  \<^verbatim>\<open>\s\<close> and four \<^verbatim>\<open>\d\<close>, and the group is all that is before them, which
  \<^verbatim>\<open>.\<close> matches when it holds no line terminator. The result is the pair of
  \<^verbatim>\<open>m[1]\<close> and \<^verbatim>\<open>m[2]\<close>, \<open>None\<close> when \<^verbatim>\<open>match\<close> returns null.
\<close>

definition matchTitleYear :: "jsstring \<Rightarrow> (jsstring \<times> jsstring) option" where
  "matchTitleYear left =
     (let n = length left; g1 = take (n - 6) left; rest = drop (n - 6) left
      in if 6 \<le> n \<and> list_all (\<lambda>c. \<not> isLineTerminator c) g1
            \<and> take 1 rest = [COMMA] \<and> list_all isWhiteSpace (take 1 (drop 1 rest))
            \<and> list_all isDigit (drop 2 rest)
         then Some (g1, drop 2 rest) else None)"

record parsedTitle =
  pt_title :: jsstring
  pt_year :: "jsstring option"
  pt_stars :: "jsstring option"

text \<open>
  \<^verbatim>\<open>parseRssTitle(rawTitle)\<close>; the fields of the object it returns are
  \<open>pt_title\<close>, \<open>pt_year\<close> and \<open>pt_stars\<close>. \<open>None\<close> is null or undefined. \<open>left\<close> and
  \<open>stars\<close> are the first two elements of the array that the destructuring reads,
  undefined (\<open>None\<close>) when the array is shorter; \<^verbatim>\<open>x || y\<close> on strings takes
  \<open>y\<close> when \<open>x\<close> is undefined or empty.
\<close>

definition parseRssTitle :: "jsstring option \<Rightarrow> parsedTitle" where
  "parseRssTitle rawTitle =
     (let s = trim (case rawTitle of None \<Rightarrow> [] | Some r \<Rightarrow> r);
          parts = map trim (split SEP s);
          left = (case parts of [] \<Rightarrow> None | l # _ \<Rightarrow> Some l);
          stars = (case parts of _ # st # _ \<Rightarrow> Some st | _ \<Rightarrow> None);
          m = (case left of None \<Rightarrow> None | Some l \<Rightarrow> matchTitleYear l);
          t = (case m of Some (g1, g2) \<Rightarrow> Some g1 | None \<Rightarrow> left)
      in \<lparr> pt_title = (case t of None \<Rightarrow> s | Some x \<Rightarrow> if x = [] then s else x),
           pt_year = (case m of Some (g1, g2) \<Rightarrow> Some g2 | None \<Rightarrow> None),
           pt_stars = (case stars of None \<Rightarrow> None
                    | Some x \<Rightarrow> if x = [] then None else Some x) \<rparr>)"

text \<open>
  \<^verbatim>\<open>for (const ch of stars)\<close> walks the string by code points: a lead surrogate
  followed by a trail surrogate is one \<open>ch\<close> of two code units, every other code unit
  is a \<open>ch\<close> of its own.
\<close>

definition isLeadSurrogate :: "jschar \<Rightarrow> bool" where
  "isLeadSurrogate c = (0xD800 \<le> c \<and> c \<le> 0xDBFF)"

definition isTrailSurrogate :: "jschar \<Rightarrow> bool" where
  "isTrailSurrogate c = (0xDC00 \<le> c \<and> c \<le> 0xDFFF)"

fun codePoints :: "jsstring \<Rightarrow> jsstring list" where
  "codePoints [] = []"
| "codePoints [c] = [[c]]"
| "codePoints (c # d # cs) =
     (if isLeadSurrogate c \<and> isTrailSurrogate d then [c, d] # codePoints cs
      else [c] # codePoints (d # cs))"

text \<open>
  The body of the loop of \<^verbatim>\<open>starsToNumber\<close>, on the accumulator \<open>val\<close>. A JavaScript
  number is a double; the sums here are multiples of 0.5 no larger than the length of a
  string, which doubles represent exactly, so \<open>val\<close> is a rational.
\<close>

fun starsLoop :: "rat \<Rightarrow> jsstring list \<Rightarrow> rat" where
  "starsLoop val [] = val"
| "starsLoop val (ch # chs) =
     starsLoop (let v1 = (if ch = [STAR] then val + 1 else val)
                in if ch = [HALF] then v1 + 1 / 2 else v1) chs"

text \<open>
  \<^verbatim>\<open>starsToNumber(stars)\<close>: \<^verbatim>\<open>!stars\<close> holds of null, undefined and the empty
  string, and \<^verbatim>\<open>val || null\<close> is null when \<open>val\<close> is 0.
\<close>

definition starsToNumber :: "jsstring option \<Rightarrow> rat option" where
  "starsToNumber stars =
     (case stars of
        None \<Rightarrow> None
      | Some s \<Rightarrow>
          if s = [] then None
          else let val = starsLoop 0 (codePoints s)
               in if val = 0 then None else Some val)"

text \<open>
  The sum of the glyph contributions of a star field, as the specification words it: 1 for
  each full star and 0.5 for each half star among its code units. \<open>starsToNumber_Some\<close>
  below shows that the loop of \<^verbatim>\<open>starsToNumber\<close> computes it.
\<close>

definition glyphSum :: "jsstring \<Rightarrow> rat" where
  "glyphSum s = of_nat (length (filter (\<lambda>c. c = STAR) s)) + of_nat (length (filter (\<lambda>c. c = HALF) s)) / 2"

section \<open>JSON values\<close>

text \<open>
  The values that \<^verbatim>\<open>res.json()\<close> returns and that the script sends to the
  destination store. An object is the list of its own properties in insertion order.
  \<^verbatim>\<open>undefined\<close> is not a JSON value: where the source may hold it, the model has a
  \<open>json option\<close> and \<open>None\<close> is \<^verbatim>\<open>undefined\<close> (or a null that the source does
  not tell from it).
\<close>

datatype json =
    JNull
  | JBool bool
  | JNum rat
  | JStr jsstring
  | JArr "json list"
  | JObj "(jsstring \<times> json) list"

fun truthy :: "json \<Rightarrow> bool" where
  "truthy JNull = False"
| "truthy (JBool b) = b"
| "truthy (JNum r) = (r \<noteq> 0)"
| "truthy (JStr s) = (s \<noteq> [])"
| "truthy (JArr xs) = True"
| "truthy (JObj kvs) = True"

fun truthyO :: "json option \<Rightarrow> bool" where
  "truthyO None = False"
| "truthyO (Some v) = truthy v"

text \<open>
  \<^verbatim>\<open>v?.k\<close> for the property names the source reads (\<^verbatim>\<open>results\<close>, \<^verbatim>\<open>crew\<close>,
  \<^verbatim>\<open>job\<close>, \<^verbatim>\<open>name\<close>, \<^verbatim>\<open>id\<close>, \<^verbatim>\<open>poster_path\<close>), none of which a
  prototype of a parsed JSON value defines: an own property of an object, undefined on
  every other value.
\<close>

fun getProp :: "json \<Rightarrow> jsstring \<Rightarrow> json option" where
  "getProp (JObj kvs) k = map_of kvs k"
| "getProp v k = None"

text \<open>
  \<^verbatim>\<open>v?.[0]\<close>: the first element of an array, the first code unit of a string (as a
  string), the property \<^verbatim>\<open>"0"\<close> of an object, undefined otherwise.
\<close>

fun firstElem :: "json \<Rightarrow> json option" where
  "firstElem (JArr xs) = (case xs of [] \<Rightarrow> None | x # _ \<Rightarrow> Some x)"
| "firstElem (JStr s) = (case s of [] \<Rightarrow> None | c # _ \<Rightarrow> Some (JStr [c]))"
| "firstElem (JObj kvs) = map_of kvs (js ''0'')"
| "firstElem v = None"

text \<open>\<^verbatim>\<open>x || null\<close>: a falsy value becomes null.\<close>

definition orNull :: "json option \<Rightarrow> json option" where
  "orNull v = (if truthyO v then v else None)"

text \<open>\<^verbatim>\<open>x || null\<close> and \<^verbatim>\<open>x || ""\<close> on a value that is a string or undefined.\<close>

definition strOrNull :: "jsstring option \<Rightarrow> jsstring option" where
  "strOrNull x = (case x of None \<Rightarrow> None | Some s \<Rightarrow> if s = [] then None else Some s)"

definition strOrEmpty :: "jsstring option \<Rightarrow> jsstring" where
  "strOrEmpty x = (case x of None \<Rightarrow> [] | Some s \<Rightarrow> s)"

text \<open>\<^verbatim>\<open>Object.entries\<close> and \<^verbatim>\<open>Object.keys\<close> of a JSON value, to state which keys a payload has.\<close>

definition objectEntries :: "json \<Rightarrow> (jsstring \<times> json) list" where
  "objectEntries v = (case v of JObj kvs \<Rightarrow> kvs | _ \<Rightarrow> [])"

definition objectKeys :: "json \<Rightarrow> jsstring list" where
  "objectKeys v = map fst (objectEntries v)"

section \<open>The environment of a run\<close>

datatype error =
    FetchError     \<comment> \<open>\<^verbatim>\<open>fetchText\<close> throws: the feed request fails or its status is not ok\<close>
  | ParseError     \<comment> \<open>\<^verbatim>\<open>xml2js.parseStringPromise\<close> rejects\<close>
  | NetworkError   \<comment> \<open>\<^verbatim>\<open>fetch\<close> of a metadata-service URL rejects\<close>
  | JsonError      \<comment> \<open>\<^verbatim>\<open>res.json()\<close> rejects: the body is not JSON\<close>
  | TypeError      \<comment> \<open>a property read on null, or a call of what is not a function\<close>
  | NotionQueryError   \<comment> \<open>\<^verbatim>\<open>notion.databases.query\<close> throws\<close>
  | NotionCreateError  \<comment> \<open>\<^verbatim>\<open>notion.pages.create\<close> throws\<close>

text \<open>
  A response of \<^verbatim>\<open>fetch\<close>: \<^verbatim>\<open>res.ok\<close> and the body as \<^verbatim>\<open>res.json()\<close> parses
  it, \<open>None\<close> when it does not parse.
\<close>

datatype response = Response (ok: bool) (jsonBody: "json option")

text \<open>
  An element of \<^verbatim>\<open>feed.rss.channel[0].item\<close>, by the four reads that \<^verbatim>\<open>main\<close>
  makes of it: \<^verbatim>\<open>item?.title?.[0]\<close>, \<^verbatim>\<open>item?.link?.[0]\<close>,
  \<^verbatim>\<open>item?.["letterboxd:watchedDate"]?.[0]\<close> and \<^verbatim>\<open>item?.description?.[0]\<close>, each a
  string or undefined.
\<close>

record item =
  item_title :: "jsstring option"
  item_link :: "jsstring option"
  item_watchedDate :: "jsstring option"
  item_description :: "jsstring option"

text \<open>
  What a run reads from outside the script: the configuration, the libraries and the
  services. \<open>rssItems\<close> is the outcome of \<^verbatim>\<open>fetchText(RSS_URL)\<close> and of the XML
  parser, down to \<^verbatim>\<open>feed?.rss?.channel?.[0]?.item || []\<close>. \<open>htmlFirstImgSrc\<close> is
  node-html-parser: \<^verbatim>\<open>parse(html).querySelector("img")?.getAttribute("src")\<close>.
  \<open>fetchSearch\<close> and \<open>fetchCredits\<close> are \<^verbatim>\<open>fetch\<close> on the two URLs of the
  metadata service, by the query (title and year) and by the text of the movie id that
  the URL is built from; \<open>None\<close> is a rejected \<^verbatim>\<open>fetch\<close>. \<open>toStringJs\<close> is the
  string conversion that a template literal applies to a value that is not a string;
  \<open>None\<close> is a conversion that throws a TypeError, as it does on a parsed object with
  an own property \<^verbatim>\<open>toString\<close>, which is never callable. The last two fields say
  when the destination store's client throws.
\<close>

record env =
  TMDB_KEY :: "jsstring option"
  rssItems :: "error + item list"
  htmlFirstImgSrc :: "jsstring \<Rightarrow> jsstring option"
  fetchSearch :: "jsstring \<Rightarrow> jsstring option \<Rightarrow> response option"
  fetchCredits :: "jsstring \<Rightarrow> response option"
  toStringJs :: "json \<Rightarrow> jsstring option"
  notionQueryFails :: "jsstring \<Rightarrow> bool"
  notionCreateFails :: "json \<Rightarrow> bool"

definition posterFromRssDescription :: "env \<Rightarrow> jsstring option \<Rightarrow> jsstring option" where
  "posterFromRssDescription env html = strOrNull (htmlFirstImgSrc env (strOrEmpty html))"

section \<open>The metadata enricher\<close>

text \<open>
  \<^verbatim>\<open>tmdbSearchMovie(title, year)\<close>. The year is a parameter of the URL only when it
  is truthy. The result is \<^verbatim>\<open>json?.results?.[0] || null\<close>.
\<close>

definition tmdbSearchMovie :: "env \<Rightarrow> jsstring \<Rightarrow> jsstring option \<Rightarrow> error + json option" where
  "tmdbSearchMovie env title year =
     (case fetchSearch env title (strOrNull year) of
        None \<Rightarrow> Inl NetworkError
      | Some res \<Rightarrow>
          if \<not> ok res then Inr None
          else case jsonBody res of
                 None \<Rightarrow> Inl JsonError
               | Some json \<Rightarrow>
                   Inr (orNull (case getProp json (js ''results'') of
                                  None \<Rightarrow> None
                                | Some results \<Rightarrow> firstElem results)))"

text \<open>
  \<^verbatim>\<open>crew.find((c) => c.job === "Director")\<close> on the elements of an array: reading
  \<^verbatim>\<open>job\<close> of a null element throws.
\<close>

fun findDirector :: "json list \<Rightarrow> error + json option" where
  "findDirector [] = Inr None"
| "findDirector (c # cs) =
     (if c = JNull then Inl TypeError
      else if getProp c (js ''job'') = Some (JStr (js ''Director'')) then Inr (Some c)
      else findDirector cs)"

text \<open>
  The text that a template literal \<^verbatim>\<open>`...${v}...`\<close> puts in the place of \<open>v\<close>: a
  string as it is, any other value through its string conversion, which may throw.
\<close>

definition templateString :: "env \<Rightarrow> json \<Rightarrow> error + jsstring" where
  "templateString env v =
     (case v of
        JStr s \<Rightarrow> Inr s
      | _ \<Rightarrow> (case toStringJs env v of
                None \<Rightarrow> Inl TypeError
              | Some s \<Rightarrow> Inr s))"

text \<open>
  \<^verbatim>\<open>tmdbGetDirector(movieId)\<close>. The URL is built first, from the text of \<open>movieId\<close>
  in a template literal. \<^verbatim>\<open>json?.crew || []\<close> is the empty array when \<^verbatim>\<open>crew\<close> is
  falsy; a truthy \<^verbatim>\<open>crew\<close> that is not an array has no \<^verbatim>\<open>find\<close>. The result is
  \<^verbatim>\<open>director?.name || null\<close>.
\<close>

definition tmdbGetDirector :: "env \<Rightarrow> json \<Rightarrow> error + json option" where
  "tmdbGetDirector env movieId =
     (case templateString env movieId of
        Inl e \<Rightarrow> Inl e
      | Inr idText \<Rightarrow>
          (case fetchCredits env idText of
             None \<Rightarrow> Inl NetworkError
           | Some res \<Rightarrow>
               if \<not> ok res then Inr None
               else case jsonBody res of
                      None \<Rightarrow> Inl JsonError
                    | Some json \<Rightarrow>
                        (case orNull (getProp json (js ''crew'')) of
                           None \<Rightarrow> Inr None
                         | Some (JArr crew) \<Rightarrow>
                             (case findDirector crew of
                                Inl e \<Rightarrow> Inl e
                              | Inr None \<Rightarrow> Inr None
                              | Inr (Some director) \<Rightarrow>
                                  Inr (orNull (getProp director (js ''name''))))
                         | Some _ \<Rightarrow> Inl TypeError)))"

text \<open>
  \<^verbatim>\<open>tmdbPosterUrl(posterPath)\<close>: null for a falsy path, else the template literal
  \<^verbatim>\<open>`https://image.tmdb.org/t/p/w500${posterPath}`\<close>, which throws when the path has no
  string conversion.
\<close>

definition tmdbPosterUrl :: "env \<Rightarrow> json option \<Rightarrow> error + jsstring option" where
  "tmdbPosterUrl env posterPath =
     (case orNull posterPath of
        None \<Rightarrow> Inr None
      | Some v \<Rightarrow>
          (case templateString env v of
             Inl e \<Rightarrow> Inl e
           | Inr s \<Rightarrow> Inr (Some (js ''https://image.tmdb.org/t/p/w500'' @ s))))"

text \<open>
  The block \<^verbatim>\<open>if (TMDB_KEY) { ... }\<close> of \<^verbatim>\<open>main\<close>, from the title, the year and the
  poster of the feed to the director and the poster that are written.
\<close>

definition enrich :: "env \<Rightarrow> jsstring \<Rightarrow> jsstring option \<Rightarrow> jsstring option
                        \<Rightarrow> error + (json option \<times> jsstring option)" where
  "enrich env title year posterUrl =
     (if strOrNull (TMDB_KEY env) = None then Inr (None, posterUrl)
      else case tmdbSearchMovie env title year of
             Inl e \<Rightarrow> Inl e
           | Inr None \<Rightarrow> Inr (None, posterUrl)
           | Inr (Some tmdbHit) \<Rightarrow>
               (case orNull (getProp tmdbHit (js ''id'')) of
                  None \<Rightarrow> Inr (None, posterUrl)
                | Some movieId \<Rightarrow>
                    (case tmdbGetDirector env movieId of
                       Inl e \<Rightarrow> Inl e
                     | Inr director \<Rightarrow>
                         (case tmdbPosterUrl env (getProp tmdbHit (js ''poster_path'')) of
                            Inl e \<Rightarrow> Inl e
                          | Inr None \<Rightarrow> Inr (director, posterUrl)
                          | Inr (Some tmdbPoster) \<Rightarrow>
                              Inr (director, if tmdbPoster = [] then posterUrl
                                             else Some tmdbPoster)))))"

section \<open>The record writer\<close>

text \<open>
  The destination store is the list of the property objects of its pages, in the order
  of their creation. The query of \<^verbatim>\<open>notionFindByLetterboxdUrl\<close> filters the pages
  whose property \<^verbatim>\<open>"Letterboxd URL"\<close> is the URL value given.
\<close>

type_synonym store = "json list"

definition hasUrl :: "jsstring \<Rightarrow> json \<Rightarrow> bool" where
  "hasUrl letterboxdUrl page =
     (getProp page (js ''Letterboxd URL'') = Some (JObj [(js ''url'', JStr letterboxdUrl)]))"

definition notionFindByLetterboxdUrl :: "env \<Rightarrow> store \<Rightarrow> jsstring \<Rightarrow> error + json option" where
  "notionFindByLetterboxdUrl env st letterboxdUrl =
     (if notionQueryFails env letterboxdUrl then Inl NotionQueryError
      else Inr (find (hasUrl letterboxdUrl) st))"

record createArgs =
  a_title :: jsstring
  a_director :: "json option"
  a_watchedDate :: "jsstring option"
  a_rating :: "rat option"
  a_posterUrl :: "jsstring option"
  a_goals :: jsstring
  a_status :: jsstring
  a_mediaType :: jsstring
  a_format :: jsstring
  a_letterboxdUrl :: jsstring

definition richText :: "json \<Rightarrow> json" where
  \<comment> \<open>\<^verbatim>\<open>{ rich_text: [{ text: { content: c } }] }\<close>\<close>
  "richText c = JObj [(js ''rich_text'', JArr [JObj [(js ''text'', JObj [(js ''content'', c)])]])]"

definition emptyRichText :: json where
  \<comment> \<open>\<^verbatim>\<open>{ rich_text: [] }\<close>\<close>
  "emptyRichText = JObj [(js ''rich_text'', JArr [])]"

definition selectProp :: "jsstring \<Rightarrow> json" where
  \<comment> \<open>\<^verbatim>\<open>{ select: { name: n } }\<close>\<close>
  "selectProp n = JObj [(js ''select'', JObj [(js ''name'', JStr n)])]"

definition filesProp :: "jsstring \<Rightarrow> json" where
  \<comment> \<open>\<^verbatim>\<open>{ files: [{ type: "external", name: "poster", external: { url: u } }] }\<close>\<close>
  "filesProp u =
     JObj [(js ''files'', JArr [JObj [(js ''type'', JStr (js ''external'')),
                                      (js ''name'', JStr (js ''poster'')),
                                      (js ''external'', JObj [(js ''url'', JStr u)])]])]"

text \<open>
  The object literal \<open>props\<close> of \<^verbatim>\<open>notionCreateMoviePage\<close>: each key with its value,
  \<open>None\<close> where the source writes \<^verbatim>\<open>undefined\<close>.
\<close>

definition propsLiteral :: "createArgs \<Rightarrow> (jsstring \<times> json option) list" where
  "propsLiteral a =
     [(js ''Name'',
         Some (JObj [(js ''title'', JArr [JObj [(js ''text'', JObj [(js ''content'', JStr (a_title a))])]])])),
      (js ''Author'',
         Some (case orNull (a_director a) of
                 Some director \<Rightarrow> richText director
               | None \<Rightarrow> emptyRichText)),
      (js ''Date Read/Watched'',
         (case strOrNull (a_watchedDate a) of
            Some watchedDate \<Rightarrow> Some (JObj [(js ''date'', JObj [(js ''start'', JStr watchedDate)])])
          | None \<Rightarrow> None)),
      (js ''My Rating'',
         (case a_rating a of
            Some rating \<Rightarrow> Some (JObj [(js ''number'', JNum rating)])
          | None \<Rightarrow> None)),
      (js ''Goals'', Some (richText (JStr (a_goals a)))),
      (js ''Status'', Some (selectProp (a_status a))),
      (js ''media type'', Some (selectProp (a_mediaType a))),
      (js ''Format'', Some (selectProp (a_format a))),
      (js ''Letterboxd URL'', Some (JObj [(js ''url'', JStr (a_letterboxdUrl a))])),
      (js ''Image'',
         (case strOrNull (a_posterUrl a) of
            Some posterUrl \<Rightarrow> Some (filesProp posterUrl)
          | None \<Rightarrow> None))]"

text \<open>
  \<^verbatim>\<open>Object.keys(props).forEach((k) => props[k] === undefined && delete props[k])\<close>:
  the keys whose value is undefined are deleted, the others keep their order.
\<close>

fun removeUndefined :: "(jsstring \<times> json option) list \<Rightarrow> (jsstring \<times> json) list" where
  "removeUndefined [] = []"
| "removeUndefined ((k, None) # kvs) = removeUndefined kvs"
| "removeUndefined ((k, Some v) # kvs) = (k, v) # removeUndefined kvs"

definition pageProps :: "createArgs \<Rightarrow> json" where
  "pageProps a = JObj (removeUndefined (propsLiteral a))"

text \<open>
  \<^verbatim>\<open>notionCreateMoviePage\<close>: the create call either throws or adds a page with the
  properties sent.
\<close>

definition notionCreateMoviePage :: "env \<Rightarrow> store \<Rightarrow> createArgs \<Rightarrow> error + store" where
  "notionCreateMoviePage env st a =
     (if notionCreateFails env (pageProps a) then Inl NotionCreateError
      else Inr (st @ [pageProps a]))"

section \<open>The run\<close>

text \<open>
  The body of the loop of \<^verbatim>\<open>main\<close> for one item, from the store before it to the
  store after it; \<open>Inl\<close> is an exception, which ends the run. \<^verbatim>\<open>continue\<close> returns
  the store as it is. The log line and the pause of 350 ms after a creation are not part
  of the model.
\<close>

definition processItem :: "env \<Rightarrow> store \<Rightarrow> item \<Rightarrow> error + store" where
  "processItem env st item =
     (let rawTitle = strOrEmpty (item_title item);
          link = strOrEmpty (item_link item);
          watchedDate = strOrNull (item_watchedDate item);
          descriptionHtml = strOrEmpty (item_description item)
      in if link = [] then Inr st
         else case notionFindByLetterboxdUrl env st link of
                Inl e \<Rightarrow> Inl e
              | Inr (Some exists) \<Rightarrow> Inr st
              | Inr None \<Rightarrow>
                  (let parsed = parseRssTitle (Some rawTitle);
                       rating = starsToNumber (pt_stars parsed);
                       posterUrl = posterFromRssDescription env (Some descriptionHtml)
                   in case enrich env (pt_title parsed) (pt_year parsed) posterUrl of
                        Inl e \<Rightarrow> Inl e
                      | Inr (director, posterUrl') \<Rightarrow>
                          notionCreateMoviePage env st
                            \<lparr> a_title = pt_title parsed,
                              a_director = director,
                              a_watchedDate = watchedDate,
                              a_rating = rating,
                              a_posterUrl = posterUrl',
                              a_goals = js ''certified cinephile'',
                              a_status = js ''watched'',
                              a_mediaType = js ''movie'',
                              a_format = js ''movie'',
                              a_letterboxdUrl = link \<rparr>))"

text \<open>
  The loop over the items, in feed order. The result is the exception that ended the run,
  if any, and the store as the run leaves it.
\<close>

fun mainLoop :: "env \<Rightarrow> store \<Rightarrow> item list \<Rightarrow> error option \<times> store" where
  "mainLoop env st [] = (None, st)"
| "mainLoop env st (item # items) =
     (case processItem env st item of
        Inl e \<Rightarrow> (Some e, st)
      | Inr st' \<Rightarrow> mainLoop env st' items)"

definition main :: "env \<Rightarrow> store \<Rightarrow> error option \<times> store" where
  "main env st =
     (case rssItems env of
        Inl e \<Rightarrow> (Some e, st)
      | Inr items \<Rightarrow> mainLoop env st items)"

text \<open>
  The object that \<^verbatim>\<open>main\<close> passes to \<^verbatim>\<open>notionCreateMoviePage\<close> for an item, given the
  director and the poster that the enrichment leaves.
\<close>

definition createArgsOf :: "env \<Rightarrow> item \<Rightarrow> json option \<Rightarrow> jsstring option \<Rightarrow> createArgs" where
  "createArgsOf env item director posterUrl =
     \<lparr> a_title = pt_title (parseRssTitle (Some (strOrEmpty (item_title item)))),
       a_director = director,
       a_watchedDate = strOrNull (item_watchedDate item),
       a_rating = starsToNumber (pt_stars (parseRssTitle (Some (strOrEmpty (item_title item))))),
       a_posterUrl = posterUrl,
       a_goals = js ''certified cinephile'',
       a_status = js ''watched'',
       a_mediaType = js ''movie'',
       a_format = js ''movie'',
       a_letterboxdUrl = strOrEmpty (item_link item) \<rparr>"

section \<open>An example run\<close>

text \<open>
  The item of the end-to-end example of the specification, with a watched date and a
  description whose first image the HTML parser of \<open>exampleEnv\<close> finds. In
  \<open>exampleEnv\<close> no metadata-service key is configured and the destination store
  answers every call. Its string conversion is given on the one value that the example
  runs convert and that has one, the id 235.
\<close>

definition exampleLink :: jsstring where
  "exampleLink = js ''https://example.com/film/x''"

definition exampleItem :: item where
  "exampleItem =
     \<lparr> item_title = Some (js ''Stand by Me, 1986 - '' @ [STAR, STAR, STAR, STAR]),
       item_link = Some exampleLink,
       item_watchedDate = Some (js ''2024-01-05''),
       item_description = Some (js ''<p><img src=p.jpg></p>'') \<rparr>"

definition exampleEnv :: env where
  "exampleEnv =
     \<lparr> TMDB_KEY = None,
       rssItems = Inr [exampleItem],
       htmlFirstImgSrc = (\<lambda>html. if html = js ''<p><img src=p.jpg></p>'' then Some (js ''p.jpg'') else None),
       fetchSearch = (\<lambda>title year. None),
       fetchCredits = (\<lambda>idText. None),
       toStringJs = (\<lambda>v. if v = JNum 235 then Some (js ''235'') else None),
       notionQueryFails = (\<lambda>letterboxdUrl. False),
       notionCreateFails = (\<lambda>page. False) \<rparr>"




definition exampleHit :: json where
  "exampleHit = JObj [(js ''id'', JNum 235), (js ''poster_path'', JStr (js ''/sbm.jpg''))]"

definition creditsNotOkEnv :: env where
  "creditsNotOkEnv =
     exampleEnv \<lparr> TMDB_KEY := Some (js ''key''),
                  fetchSearch := (\<lambda>title year.
                     Some (Response True (Some (JObj [(js ''results'', JArr [exampleHit])])))),
                  fetchCredits := (\<lambda>idText. Some (Response False None)) \<rparr>"

text \<open>
  The same metadata service, answering the search with a movie whose poster path is the
  object \<^verbatim>\<open>{"toString": 0}\<close>, which has no string conversion.
\<close>

definition posterPathObjectEnv :: env where
  "posterPathObjectEnv =
     creditsNotOkEnv \<lparr> fetchSearch := (\<lambda>title year.
        Some (Response True (Some (JObj [(js ''results'',
          JArr [JObj [(js ''id'', JNum 235),
                      (js ''poster_path'', JObj [(js ''toString'', JNum 0)])]])])))) \<rparr>"

text \<open>A page of the store whose dedup key is the link of \<open>exampleItem\<close>.\<close>

definition examplePage :: json where
  "examplePage = JObj [(js ''Letterboxd URL'', JObj [(js ''url'', JStr exampleLink)])]"

section \<open>Properties of the string operations\<close>

text \<open>
  \<^verbatim>\<open>trim\<close> leaves a string that neither starts nor ends with white space as it is, and
  its result never starts with white space; the first separator of a string is found
  behind a prefix that holds none.
\<close>

lemma trim_id:
  assumes "s \<noteq> []" "\<not> isWhiteSpace (hd s)" "\<not> isWhiteSpace (last s)"
  shows "trim s = s"
proof -
  have a: "dropWhile isWhiteSpace s = s"
    using assms(2) by (simp add: dropWhile_eq_self_iff)
  have "hd (rev s) = last s" using assms(1) by (simp add: hd_rev)
  then have "dropWhile isWhiteSpace (rev s) = rev s"
    using assms(3) by (simp add: dropWhile_eq_self_iff)
  with a show ?thesis by (simp add: trim_def)
qed

lemma trim_Nil: "trim [] = []" by (simp add: trim_def)

lemma trim_prefix: "prefix (trim s) (dropWhile isWhiteSpace s)"
proof -
  have "suffix (dropWhile isWhiteSpace (rev (dropWhile isWhiteSpace s))) (rev (dropWhile isWhiteSpace s))"
    by (rule suffix_dropWhile)
  then show ?thesis
    unfolding trim_def by (metis suffix_to_prefix rev_rev_ident)
qed

lemma trim_hd:
  assumes "trim s \<noteq> []" shows "\<not> isWhiteSpace (hd (trim s))"
proof -
  obtain u where u: "dropWhile isWhiteSpace s = trim s @ u"
    using trim_prefix[of s] by (auto simp: prefix_def)
  then have "dropWhile isWhiteSpace s \<noteq> []" using assms by simp
  then have "\<not> isWhiteSpace (hd (dropWhile isWhiteSpace s))" by (rule hd_dropWhile)
  then show ?thesis using u assms by simp
qed

lemma trim_nonempty:
  assumes "s \<noteq> []" "\<not> isWhiteSpace (hd s)" shows "trim s \<noteq> []"
proof -
  have a: "dropWhile isWhiteSpace s = s"
    using assms(2) by (simp add: dropWhile_eq_self_iff)
  have "hd s \<in> set (rev s)" using assms(1) by simp
  then have "dropWhile isWhiteSpace (rev s) \<noteq> []"
    using assms(2) by (auto simp: dropWhile_eq_Nil_conv)
  with a show ?thesis by (simp add: trim_def)
qed

lemma indexOf_SEP_append:
  assumes "indexOf SEP T = None" "R \<noteq> []" "hd R \<noteq> SPACE" "hd R \<noteq> DASH"
  shows "indexOf SEP (T @ R) = map_option (\<lambda>i. length T + i) (indexOf SEP R)"
  using assms
proof (induction T)
  case Nil
  then show ?case by (simp add: option.map_ident)
next
  case (Cons t T)
  from Cons.prems(1) have np: "\<not> prefix SEP (t # T)" and nT: "indexOf SEP T = None"
    by (auto split: if_splits)
  have "\<not> prefix SEP (t # T @ R)"
  proof (cases T)
    case Nil
    then show ?thesis using Cons.prems(2,4) by (cases R) (auto simp: SEP_def)
  next
    case (Cons x T')
    then show ?thesis using np Cons.prems(2,3) by (cases T'; cases R) (auto simp: SEP_def)
  qed
  then show ?case using Cons.IH[OF nT Cons.prems(2,3,4)]
    by (simp add: option.map_comp comp_def)
qed


lemma digit_unat: "isDigit c \<Longrightarrow> 48 \<le> unat c \<and> unat c \<le> 57"
  by (simp add: isDigit_def word_le_nat_alt)

lemma digit_facts:
  assumes "isDigit c"
  shows "c \<noteq> SPACE \<and> c \<noteq> DASH \<and> \<not> isWhiteSpace c"
proof -
  have u: "48 \<le> unat c" "unat c \<le> 57" using digit_unat[OF assms] by simp_all
  have "c \<noteq> SPACE" using u by (auto simp: SPACE_def)
  moreover have "c \<noteq> DASH" using u by (auto simp: DASH_def)
  moreover have "\<not> isWhiteSpace c"
    using u by (auto simp: isWhiteSpace_def isLineTerminator_def word_le_nat_alt)
  ultimately show ?thesis by simp
qed

lemma glyph_not_ws: "\<not> isWhiteSpace STAR" "\<not> isWhiteSpace HALF" "STAR \<noteq> SPACE" "HALF \<noteq> SPACE"
  by (auto simp: STAR_def HALF_def SPACE_def isWhiteSpace_def isLineTerminator_def)

lemma length4: "length Y = 4 \<Longrightarrow> \<exists>a b c d. Y = [a, b, c, d]"
  by (auto simp: numeral_eq_Suc length_Suc_conv)

lemma js_lits: "js '', '' = [COMMA, SPACE]" "js '' - '' = SEP"
  by (simp_all add: js_def COMMA_def SPACE_def SEP_def DASH_def)

lemma split_SEP_two:
  assumes "indexOf SEP s = Some (length L)" "s = L @ SEP @ R" "indexOf SEP R = None"
  shows "split SEP s = [L, R]"
proof -
  have "split SEP s = L # split SEP R"
    using assms(1,2) by (subst split.simps) (simp add: SEP_def)
  also have "split SEP R = [R]"
    using assms(3) by (subst split.simps) (simp add: SEP_def)
  finally show ?thesis .
qed

lemma matchTitleYear_suffix:
  assumes "list_all (\<lambda>c. \<not> isLineTerminator c) T" "isWhiteSpace w" "length Y = 4" "list_all isDigit Y"
  shows "matchTitleYear (T @ COMMA # w # Y) = Some (T, Y)"
  using assms by (simp add: matchTitleYear_def)

lemma split_SEP_step:
  assumes "indexOf SEP (L @ SEP @ R) = Some (length L)"
  shows "split SEP (L @ SEP @ R) = L # split SEP R"
  using assms by (subst split.simps) (simp add: SEP_def)

lemma SPACE_ws: "isWhiteSpace SPACE"
  by (simp add: isWhiteSpace_def SPACE_def)

section \<open>Properties of the star rating\<close>

text \<open>
  The loop over the code points computes \<open>glyphSum\<close>: a surrogate pair is no glyph, and
  neither of its two code units is one.
\<close>

lemma surrogate_not_glyph:
  "isLeadSurrogate c \<Longrightarrow> c \<noteq> STAR \<and> c \<noteq> HALF"
  "isTrailSurrogate c \<Longrightarrow> c \<noteq> STAR \<and> c \<noteq> HALF"
  by (auto simp: isLeadSurrogate_def isTrailSurrogate_def STAR_def HALF_def)

lemma STAR_neq_HALF: "STAR \<noteq> HALF"
  by (simp add: STAR_def HALF_def)

lemma starsLoop_codePoints:
  "starsLoop v (codePoints s) = v + glyphSum s"
proof (induction s arbitrary: v rule: codePoints.induct)
  case 1
  then show ?case by (simp add: glyphSum_def)
next
  case (2 c)
  then show ?case using STAR_neq_HALF by (auto simp add: glyphSum_def)
next
  case (3 c d cs)
  show ?case
  proof (cases "isLeadSurrogate c \<and> isTrailSurrogate d")
    case True
    then show ?thesis using 3(1)[OF True] surrogate_not_glyph[of c] surrogate_not_glyph[of d]
      by (simp add: glyphSum_def)
  next
    case False
    then show ?thesis using 3(2)[OF False] STAR_neq_HALF
      by (auto simp add: glyphSum_def)
  qed
qed

lemma starsToNumber_Some:
  "starsToNumber (Some s) = (if glyphSum s = 0 then None else Some (glyphSum s))"
  by (cases s) (auto simp: starsToNumber_def starsLoop_codePoints Let_def glyphSum_def)

lemma glyphSum_perm: "mset s = mset t \<Longrightarrow> glyphSum s = glyphSum t"
proof -
  assume h: "mset s = mset t"
  have "\<And>P. length (filter P s) = length (filter P t)"
  proof -
    fix P :: "jschar \<Rightarrow> bool"
    have "mset (filter P s) = mset (filter P t)" using h by simp
    then show "length (filter P s) = length (filter P t)" by (metis size_mset)
  qed
  then show ?thesis by (simp add: glyphSum_def)
qed

lemma glyphSum_nonneg: "0 \<le> glyphSum s"
  by (simp add: glyphSum_def)

lemma glyphSum_le: "glyphSum s \<le> of_nat (length s)"
proof -
  have "length (filter (\<lambda>c. c = STAR) s) + length (filter (\<lambda>c. c = HALF) s) \<le> length s"
    using STAR_neq_HALF
    by (induction s) auto
  then have "(of_nat (length (filter (\<lambda>c. c = STAR) s)) :: rat) + of_nat (length (filter (\<lambda>c. c = HALF) s)) \<le> of_nat (length s)"
    by (metis of_nat_add of_nat_le_iff)
  moreover have "(of_nat (length (filter (\<lambda>c. c = HALF) s)) :: rat) / 2 \<le> of_nat (length (filter (\<lambda>c. c = HALF) s))"
    by simp
  ultimately show ?thesis unfolding glyphSum_def by linarith
qed

lemma glyphSum_half:
  "glyphSum s
     = of_nat (2 * length (filter (\<lambda>c. c = STAR) s) + length (filter (\<lambda>c. c = HALF) s)) / 2"
  by (simp add: glyphSum_def add_divide_distrib)

section \<open>Properties of the payload, the writer and the run\<close>

text \<open>
  Keys are compared as literals: \<open>js\<close> is injective. Then the payload by its keys, the
  loop body by its branches, and what the loop keeps of the store.
\<close>

lemma jschar_of_char_inj: "(of_nat (of_char c) :: jschar) = of_nat (of_char d) \<longleftrightarrow> c = d"
proof
  assume h: "(of_nat (of_char c) :: jschar) = of_nat (of_char d)"
  have lt: "(of_char e :: nat) < 256" for e
  proof -
    have "(of_char e :: nat) mod 256 < 256" by (rule mod_less_divisor) simp
    then show ?thesis by (simp only: of_char_mod_256)
  qed
  have b: "(256::nat) < 2 ^ 16" by simp
  have c: "(of_char c :: nat) < 2 ^ 16" by (rule less_trans [OF lt b])
  have d: "(of_char d :: nat) < 2 ^ 16" by (rule less_trans [OF lt b])
  have "unat (of_nat (of_char c) :: jschar) = unat (of_nat (of_char d) :: jschar)"
    using h by simp
  then have "(of_char c :: nat) = of_char d"
    using c d by (simp add: unat_of_nat take_bit_nat_eq_self)
  then show "c = d" by simp
qed simp

lemma js_eq_iff [simp]: "js a = js b \<longleftrightarrow> a = b"
proof (induction a arbitrary: b)
  case Nil
  then show ?case by (auto simp: js_def)
next
  case (Cons x a)
  then show ?case by (cases b) (auto simp: js_def jschar_of_char_inj)
qed

lemma js_Nil_iff [simp]: "js a = [] \<longleftrightarrow> a = []" "[] = js a \<longleftrightarrow> a = []"
  by (auto simp: js_def)

lemma hasUrl_pageProps: "hasUrl l (pageProps a) \<longleftrightarrow> l = a_letterboxdUrl a"
  by (auto simp: hasUrl_def pageProps_def propsLiteral_def split: option.splits)

lemma author_pageProps:
  "getProp (pageProps a) (js ''Author'') =
     Some (case orNull (a_director a) of None \<Rightarrow> emptyRichText | Some d \<Rightarrow> richText d)"
  by (simp add: pageProps_def propsLiteral_def split: option.splits)


lemma keys_pageProps:
  "objectKeys (pageProps a) =
     [js ''Name'', js ''Author'']
     @ (if strOrNull (a_watchedDate a) = None then [] else [js ''Date Read/Watched''])
     @ (if a_rating a = None then [] else [js ''My Rating''])
     @ [js ''Goals'', js ''Status'', js ''media type'', js ''Format'', js ''Letterboxd URL'']
     @ (if strOrNull (a_posterUrl a) = None then [] else [js ''Image''])"
  by (simp add: objectKeys_def objectEntries_def pageProps_def propsLiteral_def split: option.splits)

lemma values_pageProps: "JNull \<notin> snd ` set (objectEntries (pageProps a))"
  by (auto simp: objectEntries_def pageProps_def propsLiteral_def richText_def emptyRichText_def
      selectProp_def filesProp_def split: option.splits)


lemma find_hasUrl_None: "find (hasUrl l) st = None \<longleftrightarrow> (\<forall>p\<in>set st. \<not> hasUrl l p)"
  by (auto simp: find_None_iff)

lemma strOrNull_idem [simp]: "strOrNull (strOrNull x) = strOrNull x"
  by (simp add: strOrNull_def split: option.splits)

lemma strOrEmpty_Some [simp]: "strOrEmpty (Some s) = s"
  by (simp add: strOrEmpty_def)


lemma processItem_unfold:
  "processItem env st item =
     (if strOrEmpty (item_link item) = [] then Inr st
      else if notionQueryFails env (strOrEmpty (item_link item)) then Inl NotionQueryError
      else if \<exists>p\<in>set st. hasUrl (strOrEmpty (item_link item)) p then Inr st
      else case enrich env (pt_title (parseRssTitle (Some (strOrEmpty (item_title item)))))
                  (pt_year (parseRssTitle (Some (strOrEmpty (item_title item)))))
                  (posterFromRssDescription env (Some (strOrEmpty (item_description item)))) of
             Inl e \<Rightarrow> Inl e
           | Inr (director, posterUrl) \<Rightarrow>
               notionCreateMoviePage env st (createArgsOf env item director posterUrl))"
proof (cases "find (hasUrl (strOrEmpty (item_link item))) st")
  case None
  then have "\<not> (\<exists>p\<in>set st. hasUrl (strOrEmpty (item_link item)) p)"
    by (simp add: find_hasUrl_None)
  then show ?thesis using None
    by (simp add: processItem_def notionFindByLetterboxdUrl_def Let_def createArgsOf_def
        split: sum.splits prod.splits)
next
  case (Some p)
  then have "\<exists>p\<in>set st. hasUrl (strOrEmpty (item_link item)) p"
    using find_hasUrl_None [of "strOrEmpty (item_link item)" st] by auto
  then show ?thesis using Some
    by (simp add: processItem_def notionFindByLetterboxdUrl_def Let_def)
qed

lemma processItem_store:
  assumes "processItem env st item = Inr st'"
  shows "st' = st \<or> (\<exists>a. st' = st @ [pageProps a]
            \<and> a_letterboxdUrl a = strOrEmpty (item_link item)
            \<and> (\<forall>p\<in>set st. \<not> hasUrl (strOrEmpty (item_link item)) p))"
  using assms unfolding processItem_unfold
  by (auto simp: notionCreateMoviePage_def createArgsOf_def split: if_splits sum.splits prod.splits)

lemma processItem_keeps:
  assumes "\<exists>p\<in>set st. hasUrl l p" and "processItem env st item = Inr st'"
  shows "filter (hasUrl l) st' = filter (hasUrl l) st"
  using processItem_store [OF assms(2)] assms(1) by (auto simp: hasUrl_pageProps)

lemma processItem_grows:
  assumes "processItem env st item = Inr st'"
  shows "set st \<subseteq> set st'"
  using processItem_store [OF assms] by auto

lemma mainLoop_keeps:
  "\<exists>p\<in>set st. hasUrl l p \<Longrightarrow>
     filter (hasUrl l) (snd (mainLoop env st items)) = filter (hasUrl l) st"
proof (induction items arbitrary: st)
  case Nil
  then show ?case by simp
next
  case (Cons item items)
  show ?case
  proof (cases "processItem env st item")
    case (Inl e)
    then show ?thesis by simp
  next
    case (Inr st')
    have "\<exists>p\<in>set st'. hasUrl l p" using Cons.prems processItem_grows [OF Inr] by auto
    then have "filter (hasUrl l) (snd (mainLoop env st' items)) = filter (hasUrl l) st'"
      by (rule Cons.IH)
    then show ?thesis using Inr processItem_keeps [OF Cons.prems Inr] by simp
  qed
qed

lemma mainLoop_at_most_one:
  "length (filter (hasUrl l) (snd (mainLoop env st items))) \<le> max 1 (length (filter (hasUrl l) st))"
proof (induction items arbitrary: st)
  case Nil
  then show ?case by simp
next
  case (Cons item items)
  show ?case
  proof (cases "processItem env st item")
    case (Inl e)
    then show ?thesis by simp
  next
    case (Inr st')
    have "length (filter (hasUrl l) st') \<le> max 1 (length (filter (hasUrl l) st))"
      using processItem_store [OF Inr]
      by (auto simp: hasUrl_pageProps filter_empty_conv)
    then show ?thesis using Inr Cons.IH [of st'] by simp
  qed
qed

lemma posterFromRss_idem [simp]:
  "strOrNull (posterFromRssDescription env html) = posterFromRssDescription env html"
  by (simp add: posterFromRssDescription_def)










text \<open>
  The error path of the template literals: a movie found whose poster path is the object
  \<^verbatim>\<open>{"toString": 0}\<close> ends the run with a TypeError and nothing written, although
  the credits lookup only answered with a bad status.
\<close>

lemma poster_path_without_string_conversion:
  "tmdbPosterUrl posterPathObjectEnv (Some (JObj [(js ''toString'', JNum 0)])) = Inl TypeError
   \<and> main posterPathObjectEnv [] = (Some TypeError, [])"
  by code_simp

lemma tmdbGetDirector_id_without_string_conversion:
  "toStringJs env movieId = None \<Longrightarrow> \<forall>s. movieId \<noteq> JStr s \<Longrightarrow>
     tmdbGetDirector env movieId = Inl TypeError"
  by (cases movieId) (simp_all add: tmdbGetDirector_def templateString_def)


section \<open>Claims about the item normalizer\<close>

text \<open>
  C2 (as amended). For every title \<open>T\<close> that is not empty, does not start with white
  space, holds no line terminator and does not contain the separator \<^verbatim>\<open>" - "\<close>, and
  every string \<open>Y\<close> of four ASCII digits, parsing the raw title \<^verbatim>\<open>"T, Y - \<star>\<star>\<star>\<onehalf>"\<close>
  yields the title \<open>T\<close>, the year \<open>Y\<close> and the star part \<^verbatim>\<open>"\<star>\<star>\<star>\<onehalf>"\<close>, whose rating
  is 3.5.
\<close>

theorem parseRssTitle_title_year_rating:
  assumes "T \<noteq> []" and "\<not> isWhiteSpace (hd T)"
    and "list_all (\<lambda>c. \<not> isLineTerminator c) T" and "indexOf SEP T = None"
    and "length Y = 4" and "list_all isDigit Y"
  shows "parseRssTitle (Some (T @ js '', '' @ Y @ js '' - '' @ [STAR, STAR, STAR, HALF]))
           = \<lparr> pt_title = T, pt_year = Some Y, pt_stars = Some [STAR, STAR, STAR, HALF] \<rparr>
         \<and> starsToNumber (pt_stars (parseRssTitle
               (Some (T @ js '', '' @ Y @ js '' - '' @ [STAR, STAR, STAR, HALF])))) = Some (7 / 2)"
proof -
  define L where "L = T @ COMMA # SPACE # Y"
  define G where "G = [STAR, STAR, STAR, HALF]"
  define s where "s = L @ SEP @ G"
  have raw: "T @ js '', '' @ Y @ js '' - '' @ [STAR, STAR, STAR, HALF] = s"
    by (simp add: s_def L_def G_def js_lits)
  obtain a b c d where Y: "Y = [a, b, c, d]" using length4[OF assms(5)] by blast
  have dig: "isDigit a" "isDigit b" "isDigit c" "isDigit d" using assms(6) Y by simp_all
  have hdT: "hd s = hd T" using assms(1) by (simp add: s_def L_def)
  have "last s = HALF" by (simp add: s_def G_def SEP_def)
  then have trim_s: "trim s = s"
    using trim_id[of s] hdT assms(1,2) glyph_not_ws by (simp add: s_def L_def)
  have "indexOf SEP (COMMA # SPACE # Y @ SEP @ G) = Some 6"
    using dig digit_facts[of a] digit_facts[of b] digit_facts[of c] digit_facts[of d]
    by (simp add: Y SEP_def COMMA_def SPACE_def DASH_def)
  then have idx: "indexOf SEP s = Some (length L)"
    using indexOf_SEP_append[OF assms(4), of "COMMA # SPACE # Y @ SEP @ G"] assms(5)
    by (simp add: s_def L_def COMMA_def SPACE_def DASH_def)
  have idxG: "indexOf SEP G = None"
    using glyph_not_ws by (simp add: G_def SEP_def)
  have parts: "split SEP s = [L, G]"
    using split_SEP_two[OF idx _ idxG] by (simp add: s_def)
  have "L \<noteq> []" "hd L = hd T" "last L = d" using assms(1) by (simp_all add: L_def Y)
  then have trim_L: "trim L = L"
    using trim_id[of L] assms(2) digit_facts[OF dig(4)] by simp
  have trim_G: "trim G = G"
    using trim_id[of G] glyph_not_ws by (simp add: G_def)
  have m: "matchTitleYear L = Some (T, Y)"
    unfolding L_def using assms(3,5,6)
    by (intro matchTitleYear_suffix) (simp_all add: isWhiteSpace_def SPACE_def)
  have "G \<noteq> []" by (simp add: G_def)
  then have p: "parseRssTitle (Some s) = \<lparr> pt_title = T, pt_year = Some Y, pt_stars = Some G \<rparr>"
    using assms(1) by (simp add: parseRssTitle_def trim_s parts trim_L trim_G m)
  have "starsToNumber (Some G) = Some (7 / 2)"
    by (simp add: G_def starsToNumber_def STAR_def HALF_def isLeadSurrogate_def)
  with p show ?thesis unfolding raw by (simp add: G_def)
qed

text \<open>The theorem at the title \<^verbatim>\<open>"Stand by Me"\<close> and the year \<^verbatim>\<open>"1986"\<close>.\<close>

theorem parseRssTitle_title_year_rating_witness:
  "parseRssTitle (Some (js ''Stand by Me'' @ js '', '' @ js ''1986'' @ js '' - '' @ [STAR, STAR, STAR, HALF]))
           = \<lparr> pt_title = js ''Stand by Me'', pt_year = Some (js ''1986''), pt_stars = Some [STAR, STAR, STAR, HALF] \<rparr>
         \<and> starsToNumber (pt_stars (parseRssTitle
               (Some (js ''Stand by Me'' @ js '', '' @ js ''1986'' @ js '' - '' @ [STAR, STAR, STAR, HALF])))) = Some (7 / 2)"
proof -
  have 1: "js ''Stand by Me'' \<noteq> []" by (simp add: js_def)
  have 2: "\<not> isWhiteSpace (hd (js ''Stand by Me''))" by (simp add: js_def isWhiteSpace_def isLineTerminator_def)
  have 3: "list_all (\<lambda>c. \<not> isLineTerminator c) (js ''Stand by Me'')" by (simp add: js_def isLineTerminator_def)
  have 4: "indexOf SEP (js ''Stand by Me'') = None" by (simp add: js_def SEP_def SPACE_def DASH_def)
  have 5: "length (js ''1986'') = 4" by (simp add: js_def)
  have 6: "list_all isDigit (js ''1986'')" by (simp add: js_def isDigit_def)
  show ?thesis by (rule parseRssTitle_title_year_rating[OF 1 2 3 4 5 6])
qed

text \<open>
  C2 as stated fails for a title that contains the separator: for \<open>T\<close> =
  \<^verbatim>\<open>"A - B"\<close> the raw title \<^verbatim>\<open>"A - B, 1996 - \<star>\<star>\<star>\<onehalf>"\<close> is cut at the first
  \<^verbatim>\<open>" - "\<close>, so the title is \<^verbatim>\<open>"A"\<close>, there is no year, the star part is
  \<^verbatim>\<open>"B, 1996"\<close> and the rating is null.
\<close>

theorem parseRssTitle_separator_in_title_counterexample:
  "parseRssTitle (Some (js ''A - B'' @ js '', '' @ js ''1996'' @ js '' - '' @ [STAR, STAR, STAR, HALF]))
     = \<lparr> pt_title = js ''A'', pt_year = None, pt_stars = Some (js ''B, 1996'') \<rparr>
   \<and> js ''A'' \<noteq> js ''A - B''
   \<and> starsToNumber (pt_stars (parseRssTitle
        (Some (js ''A - B'' @ js '', '' @ js ''1996'' @ js '' - '' @ [STAR, STAR, STAR, HALF])))) = None"
  by code_simp

text \<open>
  C5 (as amended). An absent or empty star field yields null, and so does every star field
  whose glyph contributions sum to zero: \<^verbatim>\<open>starsToNumber\<close> never returns 0, and
  otherwise returns the sum.
\<close>

theorem starsToNumber_null_when_zero:
  "starsToNumber None = None \<and> starsToNumber (Some []) = None
   \<and> starsToNumber st \<noteq> Some 0
   \<and> starsToNumber (Some s) = (if glyphSum s = 0 then None else Some (glyphSum s))"
proof -
  have "starsToNumber None = None" and "starsToNumber (Some []) = None"
    by (simp_all add: starsToNumber_def)
  moreover have "starsToNumber st \<noteq> Some 0"
    by (cases st) (simp_all add: starsToNumber_def Let_def)
  ultimately show ?thesis
    using starsToNumber_Some [of s] by simp
qed

text \<open>The theorem at the star field \<^verbatim>\<open>"n/a"\<close>, which holds no glyph.\<close>

theorem starsToNumber_null_when_zero_witness:
  "starsToNumber None = None \<and> starsToNumber (Some []) = None
   \<and> starsToNumber (Some (js ''n/a'')) \<noteq> Some 0
   \<and> starsToNumber (Some (js ''n/a'')) = None"
  using starsToNumber_null_when_zero [of "Some (js ''n/a'')" "js ''n/a''"]
  by (simp add: glyphSum_def js_def STAR_def HALF_def)

text \<open>
  C5 as stated fails: the star field \<^verbatim>\<open>"n/a"\<close> is not empty and its glyph
  contributions sum to zero, and its rating is null, the same as the rating of the empty
  field, not 0.
\<close>

theorem starsToNumber_zero_sum_counterexample:
  "js ''n/a'' \<noteq> [] \<and> glyphSum (js ''n/a'') = 0
   \<and> starsToNumber (Some (js ''n/a'')) = starsToNumber (Some [])
   \<and> starsToNumber (Some (js ''n/a'')) \<noteq> Some 0"
  by (simp add: starsToNumber_Some) (simp add: glyphSum_def js_def STAR_def HALF_def)

text \<open>
  C8 (as amended). For every raw title, the star rating, when it is not null, is greater
  than 0, is an integer multiple of 0.5 and is at most the number of code units of the
  star part; it has no upper bound of 5.
\<close>

theorem rating_positive_half_steps:
  assumes "starsToNumber (pt_stars (parseRssTitle rawTitle)) = Some r"
  shows "0 < r \<and> (\<exists>k::nat. r = of_nat k / 2)
         \<and> (\<exists>g. pt_stars (parseRssTitle rawTitle) = Some g \<and> r \<le> of_nat (length g))"
proof -
  obtain g where g: "pt_stars (parseRssTitle rawTitle) = Some g"
    using assms by (cases "pt_stars (parseRssTitle rawTitle)") (simp_all add: starsToNumber_def)
  have r: "r = glyphSum g" and nz: "glyphSum g \<noteq> 0"
    using assms by (simp_all add: g starsToNumber_Some split: if_splits)
  have "0 < r" using r nz glyphSum_nonneg [of g] by simp
  moreover have "\<exists>k::nat. r = of_nat k / 2" using r glyphSum_half [of g] by blast
  moreover have "r \<le> of_nat (length g)" using r glyphSum_le [of g] by simp
  ultimately show ?thesis using g by simp
qed

text \<open>The theorem at the raw title \<^verbatim>\<open>"Stand by Me, 1986 - \<star>\<star>\<star>\<onehalf>"\<close>.\<close>

theorem rating_positive_half_steps_witness:
  "starsToNumber (pt_stars (parseRssTitle
      (Some (js ''Stand by Me, 1986 - '' @ [STAR, STAR, STAR, HALF])))) = Some (7 / 2)
   \<and> (0::rat) < 7 / 2 \<and> (\<exists>k::nat. (7::rat) / 2 = of_nat k / 2)
   \<and> (\<exists>g. pt_stars (parseRssTitle
          (Some (js ''Stand by Me, 1986 - '' @ [STAR, STAR, STAR, HALF]))) = Some g
        \<and> (7::rat) / 2 \<le> of_nat (length g))"
proof -
  have h: "starsToNumber (pt_stars (parseRssTitle
      (Some (js ''Stand by Me, 1986 - '' @ [STAR, STAR, STAR, HALF])))) = Some (7 / 2)"
    by code_simp
  show ?thesis using h rating_positive_half_steps [OF h] by simp
qed

text \<open>
  C8 as stated fails: a star part of six full stars gives the rating 6, above 5.
\<close>

theorem rating_above_five_counterexample:
  "starsToNumber (pt_stars (parseRssTitle
      (Some (js ''X - '' @ [STAR, STAR, STAR, STAR, STAR, STAR])))) = Some 6
   \<and> \<not> (6::rat) \<le> 5"
  by code_simp

text \<open>
  C9. Star-rating parsing does not depend on the order of the glyphs: two star fields
  that are permutations of each other, as sequences of code units, have the same rating.
\<close>

theorem starsToNumber_order_independent:
  "mset s = mset t \<Longrightarrow> starsToNumber (Some s) = starsToNumber (Some t)"
  by (simp add: starsToNumber_Some glyphSum_perm [of s t])

text \<open>The theorem at \<^verbatim>\<open>"\<star>\<onehalf>\<star>"\<close> and \<^verbatim>\<open>"\<onehalf>\<star>\<star>"\<close>.\<close>

theorem starsToNumber_order_independent_witness:
  "mset [STAR, HALF, STAR] = mset [HALF, STAR, STAR]
   \<and> starsToNumber (Some [STAR, HALF, STAR]) = starsToNumber (Some [HALF, STAR, STAR])"
proof -
  have h: "mset [STAR, HALF, STAR] = mset [HALF, STAR, STAR]" by simp
  show ?thesis using h starsToNumber_order_independent [OF h] by simp
qed

text \<open>
  C10 (as amended). When the trimmed raw title holds the separator \<^verbatim>\<open>" - "\<close> at least
  twice, that is, it is \<open>A\<close>, the separator, \<open>B\<close>, the separator and \<open>C\<close>, where the
  two separators are the first one of the whole and the first one after it, then the year
  is read from the trimmed \<open>A\<close> alone and the star part is the trimmed \<open>B\<close> (null when
  that is empty), so that \<open>C\<close> contributes neither to the year nor to the rating. The
  title is read from the trimmed \<open>A\<close> too, unless \<open>A\<close> is a comma, a white space and
  four digits with nothing before them: then the title is the whole trimmed raw title,
  \<open>C\<close> included.
\<close>

theorem parseRssTitle_two_separators:
  assumes "trim rawTitle = A @ SEP @ B @ SEP @ C"
    and "indexOf SEP (A @ SEP @ B @ SEP @ C) = Some (length A)"
    and "indexOf SEP (B @ SEP @ C) = Some (length B)"
  shows "parseRssTitle (Some rawTitle) =
           \<lparr> pt_title = (case matchTitleYear (trim A) of
                           None \<Rightarrow> trim A
                         | Some (g1, g2) \<Rightarrow> if g1 = [] then trim rawTitle else g1),
             pt_year = (case matchTitleYear (trim A) of
                          None \<Rightarrow> None
                        | Some (g1, g2) \<Rightarrow> Some g2),
             pt_stars = (if trim B = [] then None else Some (trim B)) \<rparr>
         \<and> starsToNumber (pt_stars (parseRssTitle (Some rawTitle))) = starsToNumber (Some (trim B))"
proof -
  have ne: "trim rawTitle \<noteq> []" using assms(1) by (simp add: SEP_def)
  have hd: "\<not> isWhiteSpace (hd (trim rawTitle))" by (rule trim_hd [OF ne])
  have A: "A \<noteq> []" "\<not> isWhiteSpace (hd A)"
    using hd SPACE_ws unfolding assms(1) by (cases A; simp add: SEP_def)+
  have tA: "trim A \<noteq> []" by (rule trim_nonempty [OF A])
  have "split SEP (A @ SEP @ B @ SEP @ C) = A # split SEP (B @ SEP @ C)"
    using split_SEP_step [of A "B @ SEP @ C"] assms(2) by simp
  also have "split SEP (B @ SEP @ C) = B # split SEP C"
    by (rule split_SEP_step [OF assms(3)])
  finally have parts: "split SEP (trim rawTitle) = A # B # split SEP C"
    by (simp add: assms(1))
  have p: "parseRssTitle (Some rawTitle) =
           \<lparr> pt_title = (case matchTitleYear (trim A) of
                           None \<Rightarrow> trim A
                         | Some (g1, g2) \<Rightarrow> if g1 = [] then trim rawTitle else g1),
             pt_year = (case matchTitleYear (trim A) of
                          None \<Rightarrow> None
                        | Some (g1, g2) \<Rightarrow> Some g2),
             pt_stars = (if trim B = [] then None else Some (trim B)) \<rparr>"
    using tA by (simp add: parseRssTitle_def parts Let_def split: option.splits)
  have "starsToNumber (pt_stars (parseRssTitle (Some rawTitle))) = starsToNumber (Some (trim B))"
    by (simp add: p starsToNumber_def)
  with p show ?thesis by simp
qed

text \<open>The theorem at the raw title \<^verbatim>\<open>"Stand by Me, 1986 - \<star>\<star>\<star>\<star> - rewatch"\<close>.\<close>

theorem parseRssTitle_two_separators_witness:
  "trim (js ''Stand by Me, 1986 - '' @ [STAR, STAR, STAR, STAR] @ js '' - rewatch'')
     = js ''Stand by Me, 1986'' @ SEP @ [STAR, STAR, STAR, STAR] @ SEP @ js ''rewatch''
   \<and> indexOf SEP (js ''Stand by Me, 1986'' @ SEP @ [STAR, STAR, STAR, STAR] @ SEP @ js ''rewatch'')
       = Some (length (js ''Stand by Me, 1986''))
   \<and> indexOf SEP ([STAR, STAR, STAR, STAR] @ SEP @ js ''rewatch'') = Some (length [STAR, STAR, STAR, STAR])
   \<and> parseRssTitle (Some (js ''Stand by Me, 1986 - '' @ [STAR, STAR, STAR, STAR] @ js '' - rewatch''))
       = \<lparr> pt_title = js ''Stand by Me'', pt_year = Some (js ''1986''),
           pt_stars = Some [STAR, STAR, STAR, STAR] \<rparr>
   \<and> starsToNumber (pt_stars (parseRssTitle
        (Some (js ''Stand by Me, 1986 - '' @ [STAR, STAR, STAR, STAR] @ js '' - rewatch'')))) = Some 4"
proof -
  have 1: "trim (js ''Stand by Me, 1986 - '' @ [STAR, STAR, STAR, STAR] @ js '' - rewatch'')
     = js ''Stand by Me, 1986'' @ SEP @ [STAR, STAR, STAR, STAR] @ SEP @ js ''rewatch''"
    by code_simp
  have 2: "indexOf SEP (js ''Stand by Me, 1986'' @ SEP @ [STAR, STAR, STAR, STAR] @ SEP @ js ''rewatch'')
       = Some (length (js ''Stand by Me, 1986''))"
    by code_simp
  have 3: "indexOf SEP ([STAR, STAR, STAR, STAR] @ SEP @ js ''rewatch'') = Some (length [STAR, STAR, STAR, STAR])"
    by code_simp
  have 4: "trim (js ''Stand by Me, 1986'') = js ''Stand by Me, 1986''"
    by code_simp
  have 5: "matchTitleYear (js ''Stand by Me, 1986'') = Some (js ''Stand by Me'', js ''1986'')"
    by code_simp
  have 6: "trim [STAR, STAR, STAR, STAR] = [STAR, STAR, STAR, STAR]"
    by code_simp
  have 7: "starsToNumber (Some [STAR, STAR, STAR, STAR]) = Some 4"
    by code_simp
  show ?thesis
    using parseRssTitle_two_separators [OF 1 2 3] 1 2 3 by (simp add: 4 5 6 7)
qed

text \<open>
  C10 as stated fails: the raw titles \<^verbatim>\<open>", 1986 - \<star> - one"\<close> and
  \<^verbatim>\<open>", 1986 - \<star> - two"\<close> differ only after the second separator, and each has itself
  as its title, because the text before the comma is empty and \<^verbatim>\<open>parseRssTitle\<close>
  then falls back to the whole string.
\<close>

theorem parseRssTitle_tail_in_title_counterexample:
  "pt_title (parseRssTitle (Some (js '', 1986 - '' @ [STAR] @ js '' - one'')))
     = js '', 1986 - '' @ [STAR] @ js '' - one''
   \<and> pt_title (parseRssTitle (Some (js '', 1986 - '' @ [STAR] @ js '' - two'')))
     = js '', 1986 - '' @ [STAR] @ js '' - two''
   \<and> pt_title (parseRssTitle (Some (js '', 1986 - '' @ [STAR] @ js '' - one'')))
     \<noteq> pt_title (parseRssTitle (Some (js '', 1986 - '' @ [STAR] @ js '' - two'')))"
  by code_simp

section \<open>Claims about the record writer and the run\<close>

text \<open>
  C1. When the store holds a page whose dedup key is the link \<open>l\<close>, the loop body on an
  item with the link \<open>l\<close> issues no create call: it leaves the store as it is and goes
  on to the next item, unless the existence query itself throws. A whole run from such a
  store creates no page with the dedup key \<open>l\<close>: the pages with that key are the same
  after the run as before it.
\<close>

theorem dedup_no_create:
  assumes "p \<in> set st" and "hasUrl l p"
  shows "(item_link item = Some l \<longrightarrow>
            processItem env st item
              = (if l \<noteq> [] \<and> notionQueryFails env l then Inl NotionQueryError else Inr st))
         \<and> filter (hasUrl l) (snd (main env st)) = filter (hasUrl l) st"
proof -
  have ex: "\<exists>p\<in>set st. hasUrl l p" using assms by blast
  have "processItem env st item
          = (if l \<noteq> [] \<and> notionQueryFails env l then Inl NotionQueryError else Inr st)"
    if "item_link item = Some l"
    using that ex by (simp add: processItem_unfold)
  moreover have "filter (hasUrl l) (snd (main env st)) = filter (hasUrl l) st"
    using mainLoop_keeps [OF ex] by (simp add: main_def split: sum.splits)
  ultimately show ?thesis by blast
qed

text \<open>
  The theorem at the example item and a store that holds a page with its link: the item
  is skipped and the run leaves that one page.
\<close>

theorem dedup_no_create_witness:
  "examplePage \<in> set [examplePage] \<and> hasUrl exampleLink examplePage
   \<and> item_link exampleItem = Some exampleLink
   \<and> processItem exampleEnv [examplePage] exampleItem = Inr [examplePage]
   \<and> filter (hasUrl exampleLink) (snd (main exampleEnv [examplePage])) = [examplePage]"
proof -
  have m: "examplePage \<in> set [examplePage]" by simp
  have h: "hasUrl exampleLink examplePage" by (simp add: hasUrl_def examplePage_def)
  have l: "item_link exampleItem = Some exampleLink" by (simp add: exampleItem_def)
  have q: "processItem exampleEnv [examplePage] exampleItem = Inr [examplePage]"
    by code_simp
  show ?thesis
    using dedup_no_create [OF m h, of exampleItem exampleEnv] m h l q by simp
qed

text \<open>
  C4. In the properties sent by \<^verbatim>\<open>notionCreateMoviePage\<close>, the key of the watched
  date, of the rating and of the poster is absent when the value is null; no property is
  an explicit null; and a null director is written as the empty rich text.
\<close>

theorem create_payload_omits_null_fields:
  "(a_watchedDate a = None \<longrightarrow> js ''Date Read/Watched'' \<notin> set (objectKeys (pageProps a)))
   \<and> (a_rating a = None \<longrightarrow> js ''My Rating'' \<notin> set (objectKeys (pageProps a)))
   \<and> (a_posterUrl a = None \<longrightarrow> js ''Image'' \<notin> set (objectKeys (pageProps a)))
   \<and> JNull \<notin> snd ` set (objectEntries (pageProps a))
   \<and> (a_director a = None \<longrightarrow> getProp (pageProps a) (js ''Author'') = Some emptyRichText)"
proof -
  have "js ''Date Read/Watched'' \<notin> set (objectKeys (pageProps a))" if "a_watchedDate a = None"
    using that by (simp add: keys_pageProps strOrNull_def)
  moreover have "js ''My Rating'' \<notin> set (objectKeys (pageProps a))" if "a_rating a = None"
    using that by (simp add: keys_pageProps)
  moreover have "js ''Image'' \<notin> set (objectKeys (pageProps a))" if "a_posterUrl a = None"
    using that by (simp add: keys_pageProps strOrNull_def)
  moreover have "getProp (pageProps a) (js ''Author'') = Some emptyRichText" if "a_director a = None"
    using that by (simp add: author_pageProps orNull_def)
  ultimately show ?thesis using values_pageProps [of a] by blast
qed

text \<open>
  The theorem at the arguments of an item with no title, no watched date and no image,
  whose payload has the seven other keys only.
\<close>

theorem create_payload_omits_null_fields_witness:
  "a_watchedDate (createArgsOf exampleEnv (exampleItem \<lparr> item_title := None, item_watchedDate := None \<rparr>) None None) = None
   \<and> a_rating (createArgsOf exampleEnv (exampleItem \<lparr> item_title := None, item_watchedDate := None \<rparr>) None None) = None
   \<and> a_posterUrl (createArgsOf exampleEnv (exampleItem \<lparr> item_title := None, item_watchedDate := None \<rparr>) None None) = None
   \<and> a_director (createArgsOf exampleEnv (exampleItem \<lparr> item_title := None, item_watchedDate := None \<rparr>) None None) = None
   \<and> objectKeys (pageProps (createArgsOf exampleEnv (exampleItem \<lparr> item_title := None, item_watchedDate := None \<rparr>) None None))
       = [js ''Name'', js ''Author'', js ''Goals'', js ''Status'', js ''media type'', js ''Format'', js ''Letterboxd URL'']
   \<and> js ''Date Read/Watched'' \<notin> set (objectKeys (pageProps (createArgsOf exampleEnv (exampleItem \<lparr> item_title := None, item_watchedDate := None \<rparr>) None None)))
   \<and> js ''My Rating'' \<notin> set (objectKeys (pageProps (createArgsOf exampleEnv (exampleItem \<lparr> item_title := None, item_watchedDate := None \<rparr>) None None)))
   \<and> js ''Image'' \<notin> set (objectKeys (pageProps (createArgsOf exampleEnv (exampleItem \<lparr> item_title := None, item_watchedDate := None \<rparr>) None None)))
   \<and> JNull \<notin> snd ` set (objectEntries (pageProps (createArgsOf exampleEnv (exampleItem \<lparr> item_title := None, item_watchedDate := None \<rparr>) None None)))
   \<and> getProp (pageProps (createArgsOf exampleEnv (exampleItem \<lparr> item_title := None, item_watchedDate := None \<rparr>) None None)) (js ''Author'') = Some emptyRichText"
proof -
  define a where "a = createArgsOf exampleEnv (exampleItem \<lparr> item_title := None, item_watchedDate := None \<rparr>) None None"
  have 1: "a_watchedDate a = None" by (simp add: a_def createArgsOf_def strOrNull_def)
  have 2: "a_rating a = None" by (simp add: a_def createArgsOf_def) code_simp
  have 3: "a_posterUrl a = None" by (simp add: a_def createArgsOf_def)
  have 4: "a_director a = None" by (simp add: a_def createArgsOf_def)
  have 5: "objectKeys (pageProps a) = [js ''Name'', js ''Author'', js ''Goals'', js ''Status'', js ''media type'', js ''Format'', js ''Letterboxd URL'']"
    using 1 2 3 by (simp add: keys_pageProps strOrNull_def)
  show ?thesis
    using create_payload_omits_null_fields [of a] 1 2 3 4 5 unfolding a_def by simp
qed









end
